theory Spec2Isabelle
  imports Main "HOL-Library.Signed_Division"
begin

unbundle bit_operations_syntax

section \<open>The progressive small-progress-measures solver\<close>

text \<open>
  This theory embeds \<open>ProgressiveSmallProgressMeasuresSolver\<close>
  (\<open>src/libggg/buechi/solvers/attractor.cpp\<close>, declared in the solver's header) and the
  parity graph it reads.

  Conventions of the embedding.
  \<^item> A C++ \<open>int\<close> is an Isabelle \<open>int\<close>; the arithmetic of the solver stays far from
    the limits of the machine type, so no wrap-around is written out.
  \<^item> A \<open>std::vector<int>\<close> is an \<open>int list\<close>. A read \<open>xs[i]\<close> is \<open>xs ! nat i\<close> and a
    write is \<open>xs[nat i := v]\<close>. An index outside the vector is undefined behaviour in
    C++; the solver performs none on a graph whose owners are 0 or 1 and whose
    priorities are not negative, and the statements below are about such graphs.
  \<^item> A pointer \<open>pms.data() + k * node\<close> is the content of the vector from that offset
    on (\<open>pm_of\<close>); a write through the pointer is put back behind the untouched
    prefix (\<open>pm_store\<close>).
  \<^item> The member \<open>pv\<close> (the graph being solved) is the parameter \<open>g\<close> of every
    function; all other members are the fields of the record \<open>solver\<close>.
\<close>

subsection \<open>The parity graph\<close>

text \<open>
  \<open>Graph = boost::adjacency_list<setS, vecS, directedS, VertexProps, ...>\<close>: the vertex
  descriptors are the indices \<open>0 ..< num_vertices\<close>, enumerated in that order, and the
  out-edges of a vertex are a set of targets, enumerated in ascending order. The vertex
  property \<open>name\<close> and the edge label are not read by the solver.
\<close>

record vertex_props =
  player :: int
  priority :: int
  out_edges :: "nat list"

type_synonym graph = "vertex_props list"

definition vertex_to_node :: "graph \<Rightarrow> nat \<Rightarrow> int" where
  "vertex_to_node game vertex = (if vertex < length game then int vertex else -1)"

definition node_to_vertex :: "graph \<Rightarrow> int \<Rightarrow> nat" where
  "node_to_vertex game node = (if 0 \<le> node \<and> node < int (length game) then nat node else 0)"

text \<open>
  Modelled from the spec: \<open>graphs::priority_utilities::get_max_priority\<close>
  (\<open>libggg/graphs/priority_utilities.hpp\<close> is not among the sources), "the maximum
  priority occurring in the graph". The solver only uses \<open>max (d_max + 1) 2\<close>, so the
  value for a graph without vertices, and any value below 1, are immaterial.
\<close>

definition get_max_priority :: "graph \<Rightarrow> int" where
  "get_max_priority game = fold (\<lambda>v m. max (priority v) m) game (-1)"

subsection \<open>The solver object\<close>

record solver =
  k :: int
  pms :: "int list"
  strategy :: "int list"
  counts :: "int list"
  tmp :: "int list"
  best :: "int list"
  dirty :: "int list"
  unstable :: "int list"
  todo :: "int list"
  lift_count :: int
  lift_attempt :: int

text \<open>\<open>std::vector::resize\<close>: new elements are value-initialised, old ones are kept.\<close>

definition resize :: "int list \<Rightarrow> nat \<Rightarrow> int list" where
  "resize xs n = take n xs @ replicate (n - length xs) 0"

definition pm_of :: "solver \<Rightarrow> int \<Rightarrow> int list" where
  "pm_of s node = drop (nat (k s * node)) (pms s)"

definition pm_store :: "solver \<Rightarrow> int \<Rightarrow> int list \<Rightarrow> solver" where
  "pm_store s node pm = s\<lparr>pms := take (nat (k s * node)) (pms s) @ pm\<rparr>"

subsection \<open>The progress measure lattice\<close>

function pm_less_loop :: "int list \<Rightarrow> int list \<Rightarrow> int list \<Rightarrow> int \<Rightarrow> int \<Rightarrow> bool" where
  "pm_less_loop cnts a b d i =
     (if i \<ge> d then
        (if a ! nat i = b ! nat i then pm_less_loop cnts a b d (i - 2)
         else if a ! nat i > cnts ! nat i \<and> b ! nat i > cnts ! nat i then False
         else a ! nat i < b ! nat i)
      else False)"
  by pat_completeness auto
termination
  by (relation "measure (\<lambda>(cnts, a, b, d, i). nat (i - d + 1))") auto

definition pm_less :: "solver \<Rightarrow> int list \<Rightarrow> int list \<Rightarrow> int \<Rightarrow> int \<Rightarrow> bool" where
  "pm_less s a b d pl =
     (if b ! nat pl = -1 then a ! nat pl \<noteq> -1
      else if a ! nat pl = -1 then False
      else pm_less_loop (counts s) a b d (if (k s AND 1) = pl then k s - 2 else k s - 1))"

function pm_copy_loop :: "int \<Rightarrow> int list \<Rightarrow> int list \<Rightarrow> int \<Rightarrow> int list" where
  "pm_copy_loop kk dst src i =
     (if i < kk then pm_copy_loop kk (dst[nat i := src ! nat i]) src (i + 2) else dst)"
  by pat_completeness auto
termination
  by (relation "measure (\<lambda>(kk, dst, src, i). nat (kk - i))") auto

definition pm_copy :: "solver \<Rightarrow> int list \<Rightarrow> int list \<Rightarrow> int \<Rightarrow> int list" where
  "pm_copy s dst src pl = pm_copy_loop (k s) dst src pl"

function prog_zero :: "int list \<Rightarrow> int \<Rightarrow> int \<Rightarrow> int list \<times> int" where
  "prog_zero dst d i = (if i < d then prog_zero (dst[nat i := 0]) d (i + 2) else (dst, i))"
  by pat_completeness auto
termination
  by (relation "measure (\<lambda>(dst, d, i). nat (d - i))") auto

function prog_carry :: "int \<Rightarrow> int list \<Rightarrow> int list \<Rightarrow> int list \<Rightarrow> int \<Rightarrow> int \<Rightarrow> int list \<times> int" where
  "prog_carry kk cnts dst src i carry =
     (if i < kk then
        (let v = src ! nat i + carry in
         if v > cnts ! nat i then prog_carry kk cnts (dst[nat i := 0]) src (i + 2) 1
         else prog_carry kk cnts (dst[nat i := v]) src (i + 2) 0)
      else (dst, carry))"
  by pat_completeness auto
termination
  by (relation "measure (\<lambda>(kk, cnts, dst, src, i, carry). nat (kk - i))") auto

definition prog :: "solver \<Rightarrow> int list \<Rightarrow> int list \<Rightarrow> int \<Rightarrow> int \<Rightarrow> int list" where
  "prog s dst src d pl =
     (if src ! nat pl = -1 then dst[nat pl := -1]
      else
        (let (dst1, i) = prog_zero dst d pl;
             carry = (if d smod 2 = pl then 1 else 0);
             (dst2, carry') = prog_carry (k s) (counts s) dst1 src i carry
         in if carry' \<noteq> 0 then dst2[nat pl := -1] else dst2))"

subsection \<open>The lifting engine\<close>

text \<open>
  One out-edge of the owner-progress attempt of \<open>lift\<close>: \<open>prog\<close> into \<open>tmp\<close>, and if the
  vertex's measure is less than \<open>tmp\<close> for \<open>pl_max\<close>, copy and remember the target in
  \<open>best_ch0\<close> or \<open>best_ch1\<close>.
\<close>

definition lift_max_edge :: "int \<Rightarrow> int \<Rightarrow> int \<Rightarrow> int \<Rightarrow> solver \<times> int \<times> int \<Rightarrow> solver \<times> int \<times> int" where
  "lift_max_edge node d pl_max to_node = (\<lambda>(s, best_ch0, best_ch1).
     (let s1 = s\<lparr>tmp := prog s (tmp s) (pm_of s to_node) d pl_max\<rparr> in
      if pm_less s1 (pm_of s1 node) (tmp s1) d pl_max then
        (let s2 = pm_store s1 node (pm_copy s1 (pm_of s1 node) (tmp s1) pl_max) in
         if pl_max \<noteq> 0 then (s2, best_ch0, to_node) else (s2, to_node, best_ch1))
      else (s1, best_ch0, best_ch1)))"

text \<open>The loop \<open>for (int i = 0; i < k; i++) best[i] = tmp[i];\<close>\<close>

definition copy_best :: "solver \<Rightarrow> solver" where
  "copy_best s = s\<lparr>best := fold (\<lambda>i b. b[i := tmp s ! i]) [0..<nat (k s)] (best s)\<rparr>"

text \<open>
  One out-edge of the minimising scan (in \<open>lift\<close> and in \<open>canlift\<close>): \<open>prog\<close> into \<open>tmp\<close>,
  and keep it in \<open>best\<close> if it is the first or less than \<open>best\<close>.
\<close>

definition min_edge :: "int \<Rightarrow> int \<Rightarrow> int \<Rightarrow> solver \<times> int \<Rightarrow> solver \<times> int" where
  "min_edge d pl to_node = (\<lambda>(s, best_to).
     (let s1 = s\<lparr>tmp := prog s (tmp s) (pm_of s to_node) d pl\<rparr> in
      if best_to = -1 \<or> pm_less s1 (tmp s1) (best s1) d pl then (copy_best s1, to_node)
      else (s1, best_to)))"

definition lift_max :: "graph \<Rightarrow> solver \<Rightarrow> int \<Rightarrow> int \<Rightarrow> solver \<times> int \<times> int" where
  "lift_max g s node target =
     (let vertex = node_to_vertex g node;
          pl_max = player (g ! vertex);
          d = priority (g ! vertex)
      in if pm_of s node ! nat pl_max \<noteq> -1 then
           (if target \<noteq> -1 then lift_max_edge node d pl_max target (s, -1, -1)
            else fold (\<lambda>to_vertex. lift_max_edge node d pl_max (vertex_to_node g to_vertex))
                   (out_edges (g ! vertex)) (s, -1, -1))
         else (s, -1, -1))"

definition lift_min :: "graph \<Rightarrow> int \<Rightarrow> int \<Rightarrow> solver \<times> int \<times> int \<Rightarrow> solver \<times> int \<times> int" where
  "lift_min g node target = (\<lambda>(s, best_ch0, best_ch1).
     (let vertex = node_to_vertex g node;
          pl_min = 1 - player (g ! vertex);
          d = priority (g ! vertex)
      in if pm_of s node ! nat pl_min \<noteq> -1 \<and> (target = -1 \<or> target = strategy s ! nat node) then
           (let (s1, best_to) =
                  fold (\<lambda>to_vertex. min_edge d pl_min (vertex_to_node g to_vertex))
                    (out_edges (g ! vertex)) (s, -1);
                s2 = s1\<lparr>strategy := (strategy s1)[nat node := best_to]\<rparr>
            in if pm_less s2 (pm_of s2 node) (best s2) d pl_min then
                 (let s3 = pm_store s2 node (pm_copy s2 (pm_of s2 node) (best s2) pl_min) in
                  if pl_min \<noteq> 0 then (s3, best_ch0, best_to) else (s3, best_to, best_ch1))
               else (s2, best_ch0, best_ch1))
         else (s, best_ch0, best_ch1)))"

text \<open>The end of \<open>lift\<close>: the shrinking of \<open>counts\<close> and the two statistics counters.\<close>

definition lift_finish :: "int \<Rightarrow> int \<Rightarrow> solver \<times> int \<times> int \<Rightarrow> solver \<times> bool" where
  "lift_finish node d = (\<lambda>(s, best_ch0, best_ch1).
     (let ch0 = (best_ch0 \<noteq> -1);
          ch1 = (best_ch1 \<noteq> -1);
          s1 = (if ch0 \<and> pm_of s node ! 0 = -1 then
                  (if (d AND 1) = 0 then s\<lparr>counts := (counts s)[nat d := counts s ! nat d - 1]\<rparr> else s)
                else s);
          s2 = (if ch1 \<and> pm_of s1 node ! 1 = -1 then
                  (if (d AND 1) = 1 then s1\<lparr>counts := (counts s1)[nat d := counts s1 ! nat d - 1]\<rparr> else s1)
                else s1)
      in if ch0 \<or> ch1 then (s2\<lparr>lift_count := lift_count s2 + 1\<rparr>, True)
         else (s2\<lparr>lift_attempt := lift_attempt s2 + 1\<rparr>, False)))"

definition lift :: "graph \<Rightarrow> solver \<Rightarrow> int \<Rightarrow> int \<Rightarrow> solver \<times> bool" where
  "lift g s node target =
     (if pm_of s node ! 0 = -1 \<and> pm_of s node ! 1 = -1 then (s, False)
      else lift_finish node (priority (g ! node_to_vertex g node))
             (lift_min g node target (lift_max g s node target)))"

fun canlift_max :: "graph \<Rightarrow> int \<Rightarrow> int \<Rightarrow> int \<Rightarrow> nat list \<Rightarrow> solver \<Rightarrow> solver \<times> bool" where
  "canlift_max g node d pl [] s = (s, False)"
| "canlift_max g node d pl (to_vertex # es) s =
     (let s1 = s\<lparr>tmp := prog s (tmp s) (pm_of s (vertex_to_node g to_vertex)) d pl\<rparr> in
      if pm_less s1 (pm_of s1 node) (tmp s1) d pl then (s1, True)
      else canlift_max g node d pl es s1)"

definition canlift :: "graph \<Rightarrow> solver \<Rightarrow> int \<Rightarrow> int \<Rightarrow> solver \<times> bool" where
  "canlift g s node pl =
     (if pm_of s node ! nat pl = -1 then (s, False)
      else
        (let vertex = node_to_vertex g node;
             d = priority (g ! vertex)
         in if player (g ! vertex) = pl then canlift_max g node d pl (out_edges (g ! vertex)) s
            else
              (let (s1, best_to) =
                     fold (\<lambda>to_vertex. min_edge d pl (vertex_to_node g to_vertex))
                       (out_edges (g ! vertex)) (s, -1)
               in if best_to = -1 then (s1, False)
                  else (s1, pm_less s1 (pm_of s1 node) (best s1) d pl))))"

subsection \<open>The worklist\<close>

definition todo_push :: "solver \<Rightarrow> int \<Rightarrow> solver" where
  "todo_push s node =
     (if dirty s ! nat node = 0 then s\<lparr>dirty := (dirty s)[nat node := 1], todo := todo s @ [node]\<rparr>
      else s)"

text \<open>\<open>todo_pop\<close> is only called on a queue that is not empty.\<close>

definition todo_pop :: "solver \<Rightarrow> int \<times> solver" where
  "todo_pop s =
     (let node = hd (todo s) in
      (node, s\<lparr>todo := tl (todo s), dirty := (dirty s)[nat node := 0]\<rparr>))"

text \<open>
  The scan of all edges for the predecessors of \<open>n\<close>, as it stands twice in \<open>solve\<close>:
  every vertex in order, every out-edge in order, and for an edge into \<open>n\<close> a
  \<open>lift (from_node, n)\<close> that pushes \<open>from_node\<close> when it succeeds.
\<close>

definition lift_pred_edge :: "graph \<Rightarrow> int \<Rightarrow> nat \<Rightarrow> nat \<Rightarrow> solver \<Rightarrow> solver" where
  "lift_pred_edge g n other_vertex tgt s =
     (if tgt = node_to_vertex g n then
        (let from_node = vertex_to_node g other_vertex;
             (s1, lifted) = lift g s from_node n
         in if lifted then todo_push s1 from_node else s1)
      else s)"

definition lift_preds :: "graph \<Rightarrow> int \<Rightarrow> solver \<Rightarrow> solver" where
  "lift_preds g n s =
     fold (\<lambda>other_vertex. fold (lift_pred_edge g n other_vertex) (out_edges (g ! other_vertex)))
       [0..<length g] s"

subsection \<open>The stabilisation pass\<close>

text \<open>The first loop of \<open>update\<close>; the local queue \<open>q\<close> is carried beside the solver.\<close>

definition update_mark :: "graph \<Rightarrow> int \<Rightarrow> nat \<Rightarrow> solver \<times> int list \<Rightarrow> solver \<times> int list" where
  "update_mark g pl i = (\<lambda>(s, q).
     (let s1 = s\<lparr>unstable := (unstable s)[i := 0]\<rparr>;
          (s2, b) = (if pms s1 ! nat (k s1 * int i + pl) = -1 then (s1, True)
                     else canlift g s1 (int i) pl)
      in if b then (s2\<lparr>unstable := (unstable s2)[i := 1]\<rparr>, q @ [int i]) else (s2, q)))"

text \<open>
  The scan over the out-edges of a predecessor \<open>m\<close> that skips unstable targets.
\<close>

definition stable_min_edge :: "int \<Rightarrow> int \<Rightarrow> int \<Rightarrow> solver \<times> int \<Rightarrow> solver \<times> int" where
  "stable_min_edge d pl to_node = (\<lambda>(s, best_to).
     (if unstable s ! nat to_node \<noteq> 0 then (s, best_to)
      else min_edge d pl to_node (s, best_to)))"

text \<open>The body of the edge loop inside the \<open>while (!q.empty())\<close> of \<open>update\<close>.\<close>

definition update_pred_edge :: "graph \<Rightarrow> int \<Rightarrow> int \<Rightarrow> nat \<Rightarrow> nat \<Rightarrow> solver \<times> int list \<Rightarrow> solver \<times> int list" where
  "update_pred_edge g pl n other_vertex tgt = (\<lambda>(s, q).
     (if tgt = node_to_vertex g n then
        (let m = vertex_to_node g other_vertex in
         if unstable s ! nat m \<noteq> 0 then (s, q)
         else if player (g ! other_vertex) \<noteq> pl then
           (let d = priority (g ! other_vertex);
                (s1, best_to) =
                   fold (\<lambda>to_vertex. stable_min_edge d pl (vertex_to_node g to_vertex))
                     (out_edges (g ! other_vertex)) (s, -1)
            in if best_to = -1 then (s1, q)
               else if pm_less s1 (pm_of s1 m) (best s1) d pl then (s1, q)
               else (s1\<lparr>unstable := (unstable s1)[nat m := 1]\<rparr>, q @ [m]))
         else (s, q))
      else (s, q)))"

definition update_preds :: "graph \<Rightarrow> int \<Rightarrow> int \<Rightarrow> solver \<times> int list \<Rightarrow> solver \<times> int list" where
  "update_preds g pl n sq =
     fold (\<lambda>other_vertex. fold (update_pred_edge g pl n other_vertex) (out_edges (g ! other_vertex)))
       [0..<length g] sq"

partial_function (option) update_loop :: "graph \<Rightarrow> int \<Rightarrow> solver \<times> int list \<Rightarrow> solver option" where
  "update_loop g pl sq =
     (if snd sq = [] then Some (fst sq)
      else update_loop g pl (update_preds g pl (hd (snd sq)) (fst sq, tl (snd sq))))"

declare update_loop.simps [code]

text \<open>The last loop of \<open>update\<close>.\<close>

definition update_pin :: "graph \<Rightarrow> int \<Rightarrow> nat \<Rightarrow> solver \<Rightarrow> solver" where
  "update_pin g pl i s =
     (if unstable s ! i = 0 \<and> pms s ! nat (k s * int i + 1 - pl) \<noteq> -1 then
        (let vertex = node_to_vertex g (int i) in
         if (priority (g ! vertex) AND 1) \<noteq> pl then
           todo_push
             (s\<lparr>counts := (counts s)[nat (priority (g ! vertex)) :=
                            counts s ! nat (priority (g ! vertex)) - 1],
                pms := (pms s)[nat (k s * int i + 1 - pl) := -1]\<rparr>)
             (int i)
         else s)
      else s)"

definition update :: "graph \<Rightarrow> solver \<Rightarrow> int \<Rightarrow> solver option" where
  "update g s pl =
     Option.bind (update_loop g pl (fold (update_mark g pl) [0..<length g] (s, [])))
       (\<lambda>s1. Some (fold (update_pin g pl) [0..<length g] s1))"

subsection \<open>solve\<close>

definition init :: "graph \<Rightarrow> solver \<Rightarrow> solver" where
  "init game s =
     (let k0 = get_max_priority game + 1;
          k1 = (if k0 < 2 then 2 else k0);
          vertex_count = int (length game)
      in s\<lparr>k := k1,
           pms := resize (pms s) (nat (k1 * vertex_count)),
           strategy := resize (strategy s) (nat vertex_count),
           counts := resize (counts s) (nat k1),
           tmp := resize (tmp s) (nat k1),
           best := resize (best s) (nat k1),
           dirty := resize (dirty s) (nat vertex_count),
           unstable := resize (unstable s) (nat vertex_count)\<rparr>)"

text \<open>A loop \<open>for (int i = 0; i < n; i++) xs[i] = v;\<close>\<close>

definition fill :: "int list \<Rightarrow> nat \<Rightarrow> int \<Rightarrow> int list" where
  "fill xs n v = fold (\<lambda>i ys. ys[i := v]) [0..<n] xs"

text \<open>Everything \<open>solve\<close> does before the first \<open>lift\<close>.\<close>

definition solve_reset :: "graph \<Rightarrow> solver \<Rightarrow> solver" where
  "solve_reset g s0 =
     (let s = init g s0;
          s1 = s\<lparr>pms := fill (pms s) (nat (k s * int (length g))) 0\<rparr>;
          s2 = s1\<lparr>strategy := fill (strategy s1) (length g) (-1)\<rparr>;
          s3 = s2\<lparr>counts := fill (counts s2) (nat (k s2)) 0\<rparr>;
          s4 = s3\<lparr>counts := fold (\<lambda>vertex c. c[nat (priority (g ! vertex)) :=
                                   c ! nat (priority (g ! vertex)) + 1]) [0..<length g] (counts s3)\<rparr>;
          s5 = s4\<lparr>dirty := fill (dirty s4) (length g) 0\<rparr>
      in s5\<lparr>lift_count := 0, lift_attempt := 0\<rparr>)"

text \<open>The body of the loop \<open>for (int n = num_vertices - 1; n >= 0; n--)\<close>.\<close>

definition solve_first :: "graph \<Rightarrow> nat \<Rightarrow> solver \<Rightarrow> solver" where
  "solve_first g n s =
     (let (s1, lifted) = lift g s (int n) (-1) in
      if lifted then lift_preds g (int n) s1 else s1)"

function solve_first_loop :: "graph \<Rightarrow> int \<Rightarrow> solver \<Rightarrow> solver" where
  "solve_first_loop g n s =
     (if n \<ge> 0 then solve_first_loop g (n - 1) (solve_first g (nat n) s) else s)"
  by pat_completeness auto
termination
  by (relation "measure (\<lambda>(g, n, s). nat (n + 1))") auto

partial_function (option) solve_loop :: "graph \<Rightarrow> solver \<Rightarrow> int \<Rightarrow> solver option" where
  "solve_loop g s last_update =
     (if todo s = [] then Some s
      else
        (let popped = todo_pop s;
             s2 = lift_preds g (fst popped) (snd popped)
         in if last_update + 10 * int (length g) < lift_count s2 then
              Option.bind (update g s2 0) (\<lambda>s3.
              Option.bind (update g s3 1) (\<lambda>s4.
                solve_loop g s4 (lift_count s2)))
            else solve_loop g s2 last_update))"

declare solve_loop.simps [code]

text \<open>
  \<open>RSSolution\<close>: the two \<open>std::map\<close>s \<open>winning_regions_\<close> and \<open>strategy_\<close>, written
  by \<open>set_winning_player\<close> and \<open>set_strategy\<close>.
\<close>

record solution =
  winning_regions :: "nat \<rightharpoonup> int"
  strategies :: "nat \<rightharpoonup> nat"

definition extract_vertex :: "graph \<Rightarrow> solver \<Rightarrow> nat \<Rightarrow> solution \<Rightarrow> solution" where
  "extract_vertex g s vertex sol =
     (let node = vertex_to_node g vertex;
          pm = pm_of s node;
          winner = (if pm ! 0 = -1 then 0 else 1);
          sol1 = sol\<lparr>winning_regions := (winning_regions sol)(vertex \<mapsto> winner)\<rparr>
      in if player (g ! vertex) = winner \<and> strategy s ! nat node \<noteq> -1 then
           sol1\<lparr>strategies := (strategies sol1)(vertex \<mapsto> node_to_vertex g (strategy s ! nat node))\<rparr>
         else sol1)"

definition extract_solution :: "graph \<Rightarrow> solver \<Rightarrow> solution" where
  "extract_solution g s =
     fold (extract_vertex g s) [0..<length g] \<lparr>winning_regions = Map.empty, strategies = Map.empty\<rparr>"

text \<open>
  \<open>solve\<close> returns the solver object as it is left behind (for a later call on the same
  object) and the solution; \<open>None\<close> stands for a call that does not return.
\<close>

definition solve :: "graph \<Rightarrow> solver \<Rightarrow> (solver \<times> solution) option" where
  "solve g s0 =
     Option.bind
       (solve_loop g (solve_first_loop g (int (length g) - 1) (solve_reset g s0)) 0)
       (\<lambda>s. Some (s, extract_solution g s))"

text \<open>
  A default-constructed solver: empty vectors and an empty queue. The members \<open>k\<close>,
  \<open>lift_count\<close> and \<open>lift_attempt\<close> are not initialised by the constructor; \<open>solve\<close>
  assigns them before it reads them.
\<close>

definition new_solver :: solver where
  "new_solver = \<lparr>k = 0, pms = [], strategy = [], counts = [], tmp = [], best = [],
     dirty = [], unstable = [], todo = [], lift_count = 0, lift_attempt = 0\<rparr>"

subsection \<open>Graphs and states used as concrete inputs\<close>

text \<open>\<open>parity::graph::is_valid\<close>: owners 0 or 1, no negative priority, no dead end.\<close>

definition is_valid :: "graph \<Rightarrow> bool" where
  "is_valid graph =
     list_all (\<lambda>v. \<not> (player v \<noteq> 0 \<and> player v \<noteq> 1) \<and> \<not> priority v < 0 \<and> length (out_edges v) > 0) graph"

text \<open>An edge of a \<open>boost::adjacency_list\<close> leads to a vertex of the graph.\<close>

definition closed_graph :: "graph \<Rightarrow> bool" where
  "closed_graph g = list_all (\<lambda>v. list_all (\<lambda>t. t < length g) (out_edges v)) g"





subsection \<open>Reference definitions for the lattice operations\<close>

declare pm_less_loop.simps [simp del] pm_copy_loop.simps [simp del] prog_zero.simps [simp del]
  prog_carry.simps [simp del] solve_first_loop.simps [simp del]









text \<open>A state with \<open>k = 3\<close> whose bound for coordinate 2 has shrunk to 1.\<close>

definition shrunk_state :: solver where
  "shrunk_state = \<lparr>k = 3, pms = [], strategy = [], counts = [5, 0, 1], tmp = [0, 0, 0],
     best = [0, 0, 0], dirty = [], unstable = [], todo = [], lift_count = 0, lift_attempt = 0\<rparr>"

text \<open>The reading of the specification: a coordinate where both values are over capacity is skipped.\<close>

function pm_less_skipping :: "int list \<Rightarrow> int list \<Rightarrow> int list \<Rightarrow> int \<Rightarrow> int \<Rightarrow> bool" where
  "pm_less_skipping cnts a b d i =
     (if i \<ge> d then
        (if a ! nat i = b ! nat i \<or> (a ! nat i > cnts ! nat i \<and> b ! nat i > cnts ! nat i)
         then pm_less_skipping cnts a b d (i - 2)
         else a ! nat i < b ! nat i)
      else False)"
  by pat_completeness auto
termination
  by (relation "measure (\<lambda>(cnts, a, b, d, i). nat (i - d + 1))") auto

declare pm_less_skipping.simps [simp del]

definition highest_owned :: "int \<Rightarrow> int \<Rightarrow> int" where
  "highest_owned kk pl = (if (kk AND 1) = pl then kk - 2 else kk - 1)"

text \<open>\<open>first_difference a b d hi i\<close>: scanning the coordinates \<open>hi, hi - 2, ...\<close> down to
  \<open>d\<close>, \<open>i\<close> is the first one where \<open>a\<close> and \<open>b\<close> differ.\<close>

definition first_difference :: "int list \<Rightarrow> int list \<Rightarrow> int \<Rightarrow> int \<Rightarrow> int \<Rightarrow> bool" where
  "first_difference a b d hi i =
     (d \<le> i \<and> i \<le> hi \<and> (hi - i) mod 2 = 0 \<and> a ! nat i \<noteq> b ! nat i
      \<and> (\<forall>j. i < j \<and> j \<le> hi \<and> (hi - j) mod 2 = 0 \<longrightarrow> a ! nat j = b ! nat j))"

text \<open>
  A valid graph on which the stabilisation pass is reached. All edges lead towards
  vertex 3, which has priority 0 and only a self-loop.
\<close>

definition pinned_graph :: graph where
  "pinned_graph =
     [\<lparr>player = 0, priority = 2, out_edges = [4]\<rparr>,
      \<lparr>player = 0, priority = 4, out_edges = [0, 4]\<rparr>,
      \<lparr>player = 0, priority = 0, out_edges = [2, 4]\<rparr>,
      \<lparr>player = 0, priority = 0, out_edges = [3]\<rparr>,
      \<lparr>player = 0, priority = 5, out_edges = [3]\<rparr>,
      \<lparr>player = 0, priority = 0, out_edges = [0, 4, 5]\<rparr>,
      \<lparr>player = 1, priority = 2, out_edges = [0, 6]\<rparr>]"

subsection \<open>Predicates on solver states and further inputs\<close>


text \<open>The sizes \<open>init\<close> gives to the vectors of the solver object for the graph \<open>g\<close>.\<close>

definition sized :: "graph \<Rightarrow> solver \<Rightarrow> bool" where
  "sized g s =
     (2 \<le> k s \<and> (\<forall>v \<in> set g. priority v < k s)
      \<and> length (pms s) = nat (k s) * length g
      \<and> length (strategy s) = length g
      \<and> length (counts s) = nat (k s)
      \<and> length (tmp s) = nat (k s)
      \<and> length (best s) = nat (k s)
      \<and> length (dirty s) = length g
      \<and> length (unstable s) = length g)"

text \<open>Coordinate \<open>i\<close> of the measure of vertex \<open>v\<close>: \<open>pms[k * v + i]\<close>.\<close>

definition cell :: "solver \<Rightarrow> nat \<Rightarrow> nat \<Rightarrow> int" where
  "cell s v i = pms s ! (nat (k s) * v + i)"


text \<open>Two states that differ at most in the contents of \<open>tmp\<close> and \<open>best\<close>.\<close>

definition same_but_scratch :: "solver \<Rightarrow> solver \<Rightarrow> bool" where
  "same_but_scratch s s' =
     (k s' = k s \<and> pms s' = pms s \<and> strategy s' = strategy s \<and> counts s' = counts s
      \<and> dirty s' = dirty s \<and> unstable s' = unstable s \<and> todo s' = todo s
      \<and> lift_count s' = lift_count s \<and> lift_attempt s' = lift_attempt s
      \<and> length (tmp s') = length (tmp s) \<and> length (best s') = length (best s))"

text \<open>
  Two states that differ at most in \<open>tmp\<close>, \<open>best\<close>, the strategy entry of \<open>v\<close> and the
  coordinates of the measure of \<open>v\<close> that belong to a player in \<open>ps\<close>.
\<close>

definition touches :: "graph \<Rightarrow> nat \<Rightarrow> int set \<Rightarrow> solver \<Rightarrow> solver \<Rightarrow> bool" where
  "touches g v ps s s' =
     (k s' = k s \<and> counts s' = counts s
      \<and> dirty s' = dirty s \<and> unstable s' = unstable s \<and> todo s' = todo s
      \<and> lift_count s' = lift_count s \<and> lift_attempt s' = lift_attempt s
      \<and> length (tmp s') = length (tmp s) \<and> length (best s') = length (best s)
      \<and> length (pms s') = length (pms s) \<and> length (strategy s') = length (strategy s)
      \<and> (\<forall>u < length g. u \<noteq> v \<longrightarrow> strategy s' ! u = strategy s ! u)
      \<and> (\<forall>u < length g. \<forall>i < nat (k s). \<not> (u = v \<and> int i mod 2 \<in> ps) \<longrightarrow> cell s' u i = cell s u i))"
























section \<open>Properties\<close>

subsection \<open>Internal consistency is not checked\<close>




subsection \<open>Input validation\<close>




subsection \<open>The progression operator\<close>


















subsection \<open>The ordering\<close>

lemma first_difference_range:
  "first_difference a b d hi i \<Longrightarrow> d \<le> i \<and> i \<le> hi \<and> (hi - i) mod 2 = 0"
  by (simp add: first_difference_def)

lemma first_difference_above:
  "first_difference a b d hi i \<Longrightarrow> i < j \<Longrightarrow> j \<le> hi \<Longrightarrow> (hi - j) mod 2 = 0 \<Longrightarrow> a ! nat j = b ! nat j"
  by (simp add: first_difference_def)

lemma first_difference_at: "first_difference a b d hi i \<Longrightarrow> a ! nat i \<noteq> b ! nat i"
  by (simp add: first_difference_def)

lemma first_differenceI:
  "d \<le> i \<Longrightarrow> i \<le> hi \<Longrightarrow> (hi - i) mod 2 = 0 \<Longrightarrow> a ! nat i \<noteq> b ! nat i \<Longrightarrow>
   (\<And>j. i < j \<Longrightarrow> j \<le> hi \<Longrightarrow> (hi - j) mod 2 = 0 \<Longrightarrow> a ! nat j = b ! nat j) \<Longrightarrow>
   first_difference a b d hi i"
  by (simp add: first_difference_def)

lemma pm_less_loop_first_difference:
  "pm_less_loop cnts a b d hi =
     (\<exists>i. first_difference a b d hi i
          \<and> \<not> (a ! nat i > cnts ! nat i \<and> b ! nat i > cnts ! nat i) \<and> a ! nat i < b ! nat i)"
proof (induction cnts a b d hi rule: pm_less_loop.induct)
  case (1 cnts a b d hi)
  let ?ok = "\<lambda>t i. first_difference a b d t i
          \<and> \<not> (a ! nat i > cnts ! nat i \<and> b ! nat i > cnts ! nat i) \<and> a ! nat i < b ! nat i"
  show ?case
  proof (cases "hi \<ge> d")
    case False
    then have "\<not> pm_less_loop cnts a b d hi" by (subst pm_less_loop.simps) simp
    moreover have "\<not> (\<exists>i. ?ok hi i)" using False first_difference_range [of a b d hi] by fastforce
    ultimately show ?thesis by blast
  next
    case True
    show ?thesis
    proof (cases "a ! nat hi = b ! nat hi")
      case eq: True
      have l: "pm_less_loop cnts a b d hi = pm_less_loop cnts a b d (hi - 2)"
        using True eq by (subst pm_less_loop.simps) simp
      have ih: "pm_less_loop cnts a b d (hi - 2) = (\<exists>i. ?ok (hi - 2) i)"
        using "1.IH" True eq by simp
      have fd: "first_difference a b d hi i = first_difference a b d (hi - 2) i" for i
      proof
        assume h: "first_difference a b d hi i"
        note r = first_difference_range [OF h]
        have "i \<noteq> hi" using first_difference_at [OF h] eq by auto
        then have le: "i \<le> hi - 2" using r by presburger
        have ev: "(hi - 2 - i) mod 2 = 0" using r by presburger
        show "first_difference a b d (hi - 2) i"
        proof (rule first_differenceI)
          show "d \<le> i" using r by simp
          show "i \<le> hi - 2" by (rule le)
          show "(hi - 2 - i) mod 2 = 0" by (rule ev)
          show "a ! nat i \<noteq> b ! nat i" by (rule first_difference_at [OF h])
        next
          fix j assume j: "i < j" "j \<le> hi - 2" "(hi - 2 - j) mod 2 = 0"
          have "j \<le> hi" "(hi - j) mod 2 = 0" using j by presburger+
          then show "a ! nat j = b ! nat j" using first_difference_above [OF h j(1)] by simp
        qed
      next
        assume h: "first_difference a b d (hi - 2) i"
        note r = first_difference_range [OF h]
        show "first_difference a b d hi i"
        proof (rule first_differenceI)
          show "d \<le> i" using r by simp
          show "i \<le> hi" using r by simp
          show "(hi - i) mod 2 = 0" using r by presburger
          show "a ! nat i \<noteq> b ! nat i" by (rule first_difference_at [OF h])
        next
          fix j assume j: "i < j" "j \<le> hi" "(hi - j) mod 2 = 0"
          show "a ! nat j = b ! nat j"
          proof (cases "j = hi")
            case True then show ?thesis using eq by simp
          next
            case False
            then have "j \<le> hi - 2" "(hi - 2 - j) mod 2 = 0" using j by presburger+
            then show ?thesis using first_difference_above [OF h j(1)] by simp
          qed
        qed
      qed
      show ?thesis unfolding l ih fd ..
    next
      case ne: False
      have l: "pm_less_loop cnts a b d hi =
            (\<not> (a ! nat hi > cnts ! nat hi \<and> b ! nat hi > cnts ! nat hi) \<and> a ! nat hi < b ! nat hi)"
        using True ne by (subst pm_less_loop.simps) auto
      have fd_top: "first_difference a b d hi hi"
        using True ne by (intro first_differenceI) auto
      have only: "i = hi" if h: "first_difference a b d hi i" for i
      proof (rule ccontr)
        assume "i \<noteq> hi"
        then have "i < hi" using first_difference_range [OF h] by simp
        then have "a ! nat hi = b ! nat hi" using first_difference_above [OF h, of hi] by simp
        then show False using ne by simp
      qed
      show ?thesis unfolding l using fd_top only by blast
    qed
  qed
qed

text \<open>
  C4, as the code has it: for two measures with finite player-\<open>pl\<close> counters the scan
  runs over the coordinates of \<open>pl\<close> from the highest down to \<open>d\<close>, and the first
  coordinate where the two differ decides alone: \<open>a\<close> is less than \<open>b\<close> iff there the
  two values are not both above the bound \<open>counts\<close> and \<open>a\<close>'s is the smaller one. If
  both are above the bound the answer is "not less"; no lower coordinate is looked at.
\<close>

theorem pm_less_first_difference_decides:
  assumes "a ! nat pl \<noteq> -1" and "b ! nat pl \<noteq> -1"
  shows "pm_less s a b d pl =
     (\<exists>i. first_difference a b d (highest_owned (k s) pl) i
          \<and> \<not> (a ! nat i > counts s ! nat i \<and> b ! nat i > counts s ! nat i)
          \<and> a ! nat i < b ! nat i)"
  using assms by (simp add: pm_less_def highest_owned_def pm_less_loop_first_difference)


theorem pm_less_first_difference_decides_witness:
  "[0, 0, 2] ! nat 0 \<noteq> (-1::int) \<and> [1, 0, 2] ! nat 0 \<noteq> (-1::int)
   \<and> pm_less shrunk_state [0, 0, 2] [1, 0, 2] 0 0
   \<and> first_difference [0, 0, 2] [1, 0, 2] 0 (highest_owned (k shrunk_state) 0) 0"
proof -
  have a: "[0, 0, 2] ! nat 0 \<noteq> (-1::int)" by simp
  have b: "[1, 0, 2] ! nat 0 \<noteq> (-1::int)" by simp
  have l: "pm_less shrunk_state [0, 0, 2] [1, 0, 2] 0 0" by code_simp
  obtain i where i: "first_difference [0, 0, 2] [1, 0, 2] 0 (highest_owned (k shrunk_state) 0) i"
    using l pm_less_first_difference_decides [OF a b, of shrunk_state 0] by blast
  have hi: "highest_owned (k shrunk_state) 0 = 2" by (simp add: highest_owned_def shrunk_state_def)
  have r: "0 \<le> i \<and> i \<le> 2 \<and> (2 - i) mod 2 = 0" using first_difference_range [OF i] hi by simp
  have "i \<noteq> 2" using first_difference_at [OF i] by auto
  then have "i = 0" using r by presburger
  then show ?thesis using a b l i by simp
qed

text \<open>
  C4 as stated fails: with bound 1 at coordinate 2, the measures \<open>[0, _, 2]\<close> and
  \<open>[1, _, 3]\<close> differ first at coordinate 2, where both are over capacity. The code
  answers "not less" at once; a scan that went on to coordinate 0 would answer "less".
\<close>

theorem pm_less_stops_at_over_capacity:
  "[0, 0, 2] ! nat 0 \<noteq> (-1::int) \<and> [1, 0, 3] ! nat 0 \<noteq> (-1::int)
   \<and> \<not> pm_less shrunk_state [0, 0, 2] [1, 0, 3] 0 0
   \<and> pm_less_skipping (counts shrunk_state) [0, 0, 2] [1, 0, 3] 0 (highest_owned (k shrunk_state) 0)"
  by code_simp

subsection \<open>Mutual exclusion at the end of solve\<close>

text \<open>
  C1 does not hold of the code. On \<open>pinned_graph\<close>, where every vertex has an out-edge,
  \<open>solve\<close> returns with both counters of vertex 4 equal to \<open>TOP\<close>. The second pass of
  \<open>update 0\<close> never marks a vertex of player 0 unstable, so it pins the player-1 counter
  of vertex 4 (priority 5) to \<open>TOP\<close>; ordinary lifting later raises its player-0 counter
  to \<open>TOP\<close> as well.
\<close>

theorem solve_leaves_both_top:
  "is_valid pinned_graph \<and> closed_graph pinned_graph
   \<and> map_option (\<lambda>r. (pm_of (fst r) 4 ! 0, pm_of (fst r) 4 ! 1, winning_regions (snd r) 4))
        (solve pinned_graph new_solver) = Some (-1, -1, Some 0)"
  by code_simp

subsection \<open>Frame lemmas for the lifting engine\<close>












lemma same_but_scratch_cell: "same_but_scratch s s' \<Longrightarrow> cell s' u i = cell s u i"
  by (simp add: same_but_scratch_def cell_def)

lemma same_but_scratch_pm_of: "same_but_scratch s s' \<Longrightarrow> pm_of s' n = pm_of s n"
  by (simp add: same_but_scratch_def pm_of_def)

lemma same_but_scratch_sized: "same_but_scratch s s' \<Longrightarrow> sized g s \<Longrightarrow> sized g s'"
  by (simp add: same_but_scratch_def sized_def)




lemma touches_mono: "touches g v ps s s' \<Longrightarrow> ps \<subseteq> qs \<Longrightarrow> touches g v qs s s'"
  unfolding touches_def by blast



lemma touches_strategy:
  "touches g v ps s s' \<Longrightarrow> u < length g \<Longrightarrow> u \<noteq> v \<Longrightarrow> strategy s' ! u = strategy s ! u"
  unfolding touches_def by blast










































































subsection \<open>The state before the first lift\<close>













subsection \<open>Invariants of a whole run\<close>










subsection \<open>The strategy entries\<close>













subsection \<open>The extracted solution\<close>






subsection \<open>What the stabilisation pass does to a stable vertex\<close>




subsection \<open>The shrinking of counts\<close>




subsection \<open>The invariant on counts\<close>








subsection \<open>The strategy of the solution\<close>




subsection \<open>Two runs on the same graph\<close>






































subsection \<open>Two runs of the stabilisation pass\<close>















subsection \<open>Two runs of solve\<close>











end
